theory Spec2Isabelle
  imports Main "HOL-Library.Char_ord" "HOL-Library.List_Lexorder"
begin

section \<open>Values sent by clients\<close>

text \<open>
  The value \<^verbatim>\<open>JSON.parse\<close> returns for a WebSocket payload, and the fields of an
  HTTP request body. A field that is absent from an object reads as \<^verbatim>\<open>undefined\<close>,
  which is \<open>None\<close> here. Numbers are kept as integers: the code only tests them for
  truthiness.
\<close>

datatype json =
    JNull
  | JBool bool
  | JNum int
  | JStr string
  | JArr "json list"
  | JObj "(string \<times> json) list"

datatype error =
    SyntaxError
  | TypeError
  | ValidationError
  | ForeignKeyError
  | UniqueError
  | RecordNotFound
  | StoreUnavailable

text \<open>JavaScript truthiness, as \<^verbatim>\<open>!x\<close> tests it.\<close>

fun truthy :: "json option \<Rightarrow> bool" where
  "truthy None = False"
| "truthy (Some JNull) = False"
| "truthy (Some (JBool b)) = b"
| "truthy (Some (JNum n)) = (n \<noteq> 0)"
| "truthy (Some (JStr s)) = (s \<noteq> [])"
| "truthy (Some (JArr xs)) = True"
| "truthy (Some (JObj kvs)) = True"

text \<open>
  Reading a property of a parsed value: \<^verbatim>\<open>null.type\<close> throws a TypeError, an object
  gives the field or \<^verbatim>\<open>undefined\<close>, and a number, string, boolean or array has none
  of the properties the code reads.
\<close>

fun get_prop :: "json \<Rightarrow> string \<Rightarrow> error + json option" where
  "get_prop JNull k = Inl TypeError"
| "get_prop (JObj kvs) k = Inr (map_of kvs k)"
| "get_prop v k = Inr None"

text \<open>A value that the store accepts for a column of type String.\<close>

fun as_string :: "json option \<Rightarrow> string option" where
  "as_string (Some (JStr s)) = Some s"
| "as_string v = None"

section \<open>The store\<close>

record conversation =
  id_c :: string
  user1Id :: string
  user2Id :: string
  updatedAt :: nat

record message =
  id_m :: string
  content :: string
  senderId :: string
  receiverId :: string
  conversationId :: string
  createdAt :: nat

text \<open>
  Modelled from the spec: the Prisma schema is not among the sources. The database
  behind the Prisma client, with the columns the code reads and writes. Besides its
  tables it carries what the environment decides: the clock \<open>now\<close>, the identifiers
  the store generates (\<open>uuid\<close>, indexed by \<open>issued\<close>) and \<open>faults\<close>, which says for
  each coming call whether the store is unavailable for it (a call beyond the list
  succeeds).
\<close>

record store =
  users :: "string list"
  conversations :: "conversation list"
  messages :: "message list"
  now :: nat
  uuid :: "nat \<Rightarrow> string"
  issued :: nat
  faults :: "bool list"

definition store_call :: "store \<Rightarrow> bool \<times> store" where
  "store_call s = (case faults s of [] \<Rightarrow> (False, s) | f # fs \<Rightarrow> (f, s\<lparr>faults := fs\<rparr>))"

text \<open>
  Modelled from the spec: the Prisma schema and the generated client are not among the
  sources. A message has a sender, a receiver, a text and a conversation, all required
  strings, and belongs to one conversation and one sender (the routes include both
  relations); the store assigns the identifier and the creation time.
  \<^verbatim>\<open>prisma.message.create({ data: { content, senderId, receiverId, conversationId } })\<close>
\<close>

definition message_create ::
  "json option \<Rightarrow> string option \<Rightarrow> json option \<Rightarrow> json option \<Rightarrow> store
     \<Rightarrow> (error + message) \<times> store" where
  "message_create content' senderId' receiverId' conversationId' s =
     (case (as_string content', senderId', as_string receiverId', as_string conversationId') of
        (Some c, Some sd, Some r, Some cv) \<Rightarrow>
          (case store_call s of
             (True, s1) \<Rightarrow> (Inl StoreUnavailable, s1)
           | (False, s1) \<Rightarrow>
               if sd \<notin> set (users s1) \<or> cv \<notin> id_c ` set (conversations s1)
               then (Inl ForeignKeyError, s1)
               else if uuid s1 (issued s1) \<in> id_m ` set (messages s1)
               then (Inl UniqueError, s1\<lparr>issued := Suc (issued s1)\<rparr>)
               else
                 let m = \<lparr>id_m = uuid s1 (issued s1), content = c, senderId = sd,
                          receiverId = r, conversationId = cv, createdAt = now s1\<rparr>
                 in (Inr m, s1\<lparr>messages := messages s1 @ [m], now := Suc (now s1),
                                issued := Suc (issued s1)\<rparr>))
      | _ \<Rightarrow> (Inl ValidationError, s))"

text \<open>
  Modelled from the spec: the Prisma schema and the generated client are not among the
  sources. \<^verbatim>\<open>prisma.conversation.update({ where: { id }, data: { updatedAt: new Date() } })\<close>
  sets the last-activity time of the conversation with that identifier and throws when
  there is none.
\<close>

definition conversation_update :: "json option \<Rightarrow> store \<Rightarrow> (error + conversation) \<times> store" where
  "conversation_update conversationId' s =
     (case as_string conversationId' of
        None \<Rightarrow> (Inl ValidationError, s)
      | Some cv \<Rightarrow>
          (case store_call s of
             (True, s1) \<Rightarrow> (Inl StoreUnavailable, s1)
           | (False, s1) \<Rightarrow>
               (case find (\<lambda>c. id_c c = cv) (conversations s1) of
                  None \<Rightarrow> (Inl RecordNotFound, s1)
                | Some c \<Rightarrow>
                    let c' = c\<lparr>updatedAt := now s1\<rparr>
                    in (Inr c', s1\<lparr>conversations :=
                                      map (\<lambda>x. if id_c x = cv then x\<lparr>updatedAt := now s1\<rparr> else x)
                                        (conversations s1),
                                    now := Suc (now s1)\<rparr>))))"

section \<open>The WebSocket relay\<close>

datatype ready_state = CONNECTING | OPEN | CLOSING | CLOSED

text \<open>The three outbound events, by their \<^verbatim>\<open>type\<close> field.\<close>

datatype frame =
    new_message message
  | message_sent message
  | error_frame string

text \<open>
  A socket object: the \<open>userId\<close> the handshake attaches to it, its \<open>readyState\<close>, the
  frames handed to \<^verbatim>\<open>ws.send\<close> (\<open>sent\<close>, oldest first), the code and reason given to
  \<^verbatim>\<open>ws.close\<close>, and whether the message and close listeners have been attached.
\<close>

record socket =
  userId :: "string option"
  readyState :: ready_state
  sent :: "frame list"
  closeFrame :: "(nat \<times> string) option"
  listeners :: bool

text \<open>
  The process: the module's \<open>clients\<close> map from user identifier to socket (sockets are
  named by a handle), the socket objects and the database.
\<close>

record world =
  clients :: "string \<rightharpoonup> nat"
  sockets :: "nat \<Rightarrow> socket"
  db :: store

definition new_socket :: socket where
  "new_socket = \<lparr>userId = None, readyState = OPEN, sent = [], closeFrame = None,
                  listeners = False\<rparr>"

definition ws_send :: "nat \<Rightarrow> frame \<Rightarrow> world \<Rightarrow> world" where
  "ws_send ws f w = w\<lparr>sockets := (sockets w)(ws := (sockets w ws)\<lparr>sent := sent (sockets w ws) @ [f]\<rparr>)\<rparr>"

definition ws_close :: "nat \<Rightarrow> nat \<Rightarrow> string \<Rightarrow> world \<Rightarrow> world" where
  "ws_close ws code reason w =
     w\<lparr>sockets := (sockets w)(ws := (sockets w ws)\<lparr>readyState := CLOSING,
                                                  closeFrame := Some (code, reason)\<rparr>)\<rparr>"

text \<open>
  What line 18 of the listener, \<^verbatim>\<open>new URL(req.url, `http://${req.headers.host}`)\<close>,
  makes of the upgrade request. The constructor throws a TypeError when the request
  target and the Host header do not form a URL (a target \<^verbatim>\<open>//\<close>, a Host with a space in
  it): \<open>InvalidURL\<close>. Otherwise \<open>ParsedURL\<close> carries what
  \<^verbatim>\<open>url.searchParams.get('token')\<close> gives: the parameter, or \<open>None\<close> for \<^verbatim>\<open>null\<close>.
\<close>

datatype request_url =
    InvalidURL
  | ParsedURL "string option"

text \<open>
  The \<^verbatim>\<open>connection\<close> listener of \<^verbatim>\<open>setupWebSocket\<close>, run on the socket \<open>ws\<close> the server
  has just accepted. The URL is built before the check of the token and outside the
  \<^verbatim>\<open>try\<close>, so its TypeError leaves the listener (\<open>Inl\<close>) with the socket neither closed
  nor registered. \<open>verify\<close> stands for \<^verbatim>\<open>jwt.verify\<close> with the server's secret and gives
  the \<^verbatim>\<open>userId\<close> of the payload, or \<open>None\<close> when it throws, which the \<^verbatim>\<open>catch\<close> turns
  into a close.
\<close>

definition on_connection ::
  "(string \<Rightarrow> string option) \<Rightarrow> nat \<Rightarrow> request_url \<Rightarrow> world \<Rightarrow> (error + unit) \<times> world" where
  "on_connection verify ws url w0 =
     (let w = w0\<lparr>sockets := (sockets w0)(ws := new_socket)\<rparr> in
      case url of
        InvalidURL \<Rightarrow> (Inl TypeError, w)
      | ParsedURL token \<Rightarrow>
          (case token of
             None \<Rightarrow> (Inr (), ws_close ws 1008 ''No token provided'' w)
           | Some t \<Rightarrow>
               if t = [] then (Inr (), ws_close ws 1008 ''No token provided'' w)
               else
                 (case verify t of
                    None \<Rightarrow> (Inr (), ws_close ws 1008 ''Invalid token'' w)
                  | Some decoded_userId \<Rightarrow>
                      (Inr (),
                       w\<lparr>clients := (clients w)(decoded_userId \<mapsto> ws),
                         sockets := (sockets w)(ws := (sockets w ws)\<lparr>userId := Some decoded_userId,
                                                                      listeners := True\<rparr>)\<rparr>))))"

text \<open>
  The server accepts socket \<open>ws\<close>: the \<^verbatim>\<open>connection\<close> event runs the listener. The
  listener is \<^verbatim>\<open>async\<close> and the emitter drops the promise it returns, so an exception
  that leaves it reaches no handler of this program.
\<close>

definition emit_connection ::
  "(string \<Rightarrow> string option) \<Rightarrow> nat \<Rightarrow> request_url \<Rightarrow> world \<Rightarrow> world" where
  "emit_connection verify ws url w = snd (on_connection verify ws url w)"

text \<open>The \<^verbatim>\<open>close\<close> listener: \<^verbatim>\<open>if (ws.userId) clients.delete(ws.userId)\<close>.\<close>

definition on_close :: "nat \<Rightarrow> world \<Rightarrow> world" where
  "on_close ws w =
     (case userId (sockets w ws) of
        None \<Rightarrow> w
      | Some u \<Rightarrow> if u = [] then w else w\<lparr>clients := (clients w)(u := None)\<rparr>)"

text \<open>
  The channel of socket \<open>ws\<close> closes: the socket becomes \<open>CLOSED\<close> and the \<^verbatim>\<open>close\<close>
  event runs the listener, if one was attached.
\<close>

definition emit_close :: "nat \<Rightarrow> world \<Rightarrow> world" where
  "emit_close ws w0 =
     (let w = w0\<lparr>sockets := (sockets w0)(ws := (sockets w0 ws)\<lparr>readyState := CLOSED\<rparr>)\<rparr>
      in if listeners (sockets w ws) then on_close ws w else w)"

text \<open>
  The two store calls that the \<^verbatim>\<open>message\<close> listener and the \<^verbatim>\<open>POST /message\<close>
  route both make, in this order: create the message, then update the conversation's
  timestamp. An exception of either call leaves the function at once.
\<close>

definition save_message ::
  "json option \<Rightarrow> string option \<Rightarrow> json option \<Rightarrow> json option \<Rightarrow> store
     \<Rightarrow> (error + message) \<times> store" where
  "save_message content' senderId' receiverId' conversationId' s =
     (case message_create content' senderId' receiverId' conversationId' s of
        (Inl e, s1) \<Rightarrow> (Inl e, s1)
      | (Inr savedMessage, s1) \<Rightarrow>
          (case conversation_update conversationId' s1 of
             (Inl e, s2) \<Rightarrow> (Inl e, s2)
           | (Inr c, s2) \<Rightarrow> (Inr savedMessage, s2)))"

text \<open>
  The rest of the \<^verbatim>\<open>chat_message\<close> branch: \<^verbatim>\<open>clients.get(receiverId)\<close>, the push to
  the receiver when that socket exists and is \<open>OPEN\<close>, then the confirmation to the
  sender.
\<close>

definition push_to_receiver :: "json option \<Rightarrow> message \<Rightarrow> world \<Rightarrow> world" where
  "push_to_receiver receiverId' savedMessage w =
     (case (case as_string receiverId' of None \<Rightarrow> None | Some r \<Rightarrow> clients w r) of
        None \<Rightarrow> w
      | Some receiverWs \<Rightarrow>
          if readyState (sockets w receiverWs) = OPEN
          then ws_send receiverWs (new_message savedMessage) w
          else w)"

definition relay :: "nat \<Rightarrow> json option \<Rightarrow> message \<Rightarrow> world \<Rightarrow> world" where
  "relay ws receiverId' savedMessage w =
     ws_send ws (message_sent savedMessage) (push_to_receiver receiverId' savedMessage w)"

text \<open>A field of an object by destructuring; \<^verbatim>\<open>undefined\<close> when it is not there.\<close>

definition field :: "json \<Rightarrow> string \<Rightarrow> json option" where
  "field msg k = (case get_prop msg k of Inl e \<Rightarrow> None | Inr v \<Rightarrow> v)"

text \<open>
  The body of the \<^verbatim>\<open>try\<close> block of the \<^verbatim>\<open>message\<close> listener. \<open>data\<close> is the parsed
  payload, \<open>None\<close> when \<^verbatim>\<open>JSON.parse\<close> throws. \<open>Inl\<close> is an exception on its way to the
  \<^verbatim>\<open>catch\<close>.
\<close>

definition on_message_try :: "nat \<Rightarrow> json option \<Rightarrow> world \<Rightarrow> (error + unit) \<times> world" where
  "on_message_try ws data w =
     (case data of
        None \<Rightarrow> (Inl SyntaxError, w)
      | Some msg \<Rightarrow>
          (case get_prop msg ''type'' of
             Inl e \<Rightarrow> (Inl e, w)
           | Inr ty \<Rightarrow>
               if ty = Some (JStr ''chat_message'') then
                 (case save_message (field msg ''content'') (userId (sockets w ws))
                         (field msg ''receiverId'') (field msg ''conversationId'') (db w) of
                    (Inl e, s) \<Rightarrow> (Inl e, w\<lparr>db := s\<rparr>)
                  | (Inr savedMessage, s) \<Rightarrow>
                      (Inr (), relay ws (field msg ''receiverId'') savedMessage (w\<lparr>db := s\<rparr>)))
               else (Inr (), w)))"

text \<open>The \<^verbatim>\<open>message\<close> listener: the \<^verbatim>\<open>try\<close> block and its \<^verbatim>\<open>catch\<close>.\<close>

definition on_message :: "nat \<Rightarrow> json option \<Rightarrow> world \<Rightarrow> world" where
  "on_message ws data w =
     (case on_message_try ws data w of
        (Inl e, w') \<Rightarrow> ws_send ws (error_frame ''Failed to process message'') w'
      | (Inr u, w') \<Rightarrow> w')"

text \<open>A payload arrives on socket \<open>ws\<close>: the \<^verbatim>\<open>message\<close> event runs the listener, if any.\<close>

definition emit_message :: "nat \<Rightarrow> json option \<Rightarrow> world \<Rightarrow> world" where
  "emit_message ws data w = (if listeners (sockets w ws) then on_message ws data w else w)"

text \<open>
  The events the relay reacts to: a connection \<open>ws\<close> is accepted for a request, a payload
  arrives on \<open>ws\<close>, the channel of \<open>ws\<close> closes. Handled one at a time, in order.
\<close>

datatype event =
    Connect nat request_url
  | Message nat "json option"
  | Close nat

fun step :: "(string \<Rightarrow> string option) \<Rightarrow> world \<Rightarrow> event \<Rightarrow> world" where
  "step verify w (Connect ws url) = emit_connection verify ws url w"
| "step verify w (Message ws data) = emit_message ws data w"
| "step verify w (Close ws) = emit_close ws w"

definition run :: "(string \<Rightarrow> string option) \<Rightarrow> world \<Rightarrow> event list \<Rightarrow> world" where
  "run verify w evs = foldl (step verify) w evs"

fun connects :: "nat \<Rightarrow> event \<Rightarrow> bool" where
  "connects ws (Connect ws' url) = (ws' = ws)"
| "connects ws e = False"

section \<open>The chat routes\<close>

text \<open>
  \<^verbatim>\<open>[req.userId, otherUserId].sort()\<close> on two strings: the default comparison orders
  strings by their code units, and the sort is stable.
\<close>

definition js_sort2 :: "string \<Rightarrow> string \<Rightarrow> string \<times> string" where
  "js_sort2 a b = (if b < a then (b, a) else (a, b))"

text \<open>
  Modelled from the spec: the Prisma schema and the generated client are not among the
  sources. \<^verbatim>\<open>prisma.conversation.findUnique({ where: { user1Id_user2Id: { user1Id, user2Id } } })\<close>
  reads the conversation stored for that ordered pair, which is a unique key.
\<close>

definition conversation_findUnique_users ::
  "string \<Rightarrow> string \<Rightarrow> store \<Rightarrow> (error + conversation option) \<times> store" where
  "conversation_findUnique_users u1 u2 s =
     (case store_call s of
        (True, s1) \<Rightarrow> (Inl StoreUnavailable, s1)
      | (False, s1) \<Rightarrow>
          (Inr (find (\<lambda>c. user1Id c = u1 \<and> user2Id c = u2) (conversations s1)), s1))"

text \<open>
  Modelled from the spec: the Prisma schema and the generated client are not among the
  sources. \<^verbatim>\<open>prisma.conversation.create({ data: { user1Id, user2Id } })\<close> stores a new
  conversation of two existing users under a generated identifier; the pair is a unique
  key of the table.
\<close>

definition conversation_create ::
  "string \<Rightarrow> string \<Rightarrow> store \<Rightarrow> (error + conversation) \<times> store" where
  "conversation_create u1 u2 s =
     (case store_call s of
        (True, s1) \<Rightarrow> (Inl StoreUnavailable, s1)
      | (False, s1) \<Rightarrow>
          if u1 \<notin> set (users s1) \<or> u2 \<notin> set (users s1) then (Inl ForeignKeyError, s1)
          else if (u1, u2) \<in> (\<lambda>c. (user1Id c, user2Id c)) ` set (conversations s1)
          then (Inl UniqueError, s1)
          else if uuid s1 (issued s1) \<in> id_c ` set (conversations s1)
          then (Inl UniqueError, s1\<lparr>issued := Suc (issued s1)\<rparr>)
          else
            let c = \<lparr>id_c = uuid s1 (issued s1), user1Id = u1, user2Id = u2,
                     updatedAt = now s1\<rparr>
            in (Inr c, s1\<lparr>conversations := conversations s1 @ [c], now := Suc (now s1),
                           issued := Suc (issued s1)\<rparr>))"

text \<open>
  Modelled from the spec: the Prisma schema and the generated client are not among the
  sources. \<^verbatim>\<open>prisma.conversation.findUnique({ where: { id: conversationId } })\<close>.
\<close>

definition conversation_findUnique ::
  "json option \<Rightarrow> store \<Rightarrow> (error + conversation option) \<times> store" where
  "conversation_findUnique conversationId' s =
     (case as_string conversationId' of
        None \<Rightarrow> (Inl ValidationError, s)
      | Some cv \<Rightarrow>
          (case store_call s of
             (True, s1) \<Rightarrow> (Inl StoreUnavailable, s1)
           | (False, s1) \<Rightarrow> (Inr (find (\<lambda>c. id_c c = cv) (conversations s1)), s1)))"

text \<open>
  Modelled from the spec: the Prisma schema and the generated client are not among the
  sources. \<^verbatim>\<open>prisma.message.findMany({ where: { conversationId }, orderBy: { createdAt: 'asc' } })\<close>:
  the messages of the conversation by creation time, ties in insertion order.
\<close>

definition message_findMany :: "string \<Rightarrow> store \<Rightarrow> (error + message list) \<times> store" where
  "message_findMany cv s =
     (case store_call s of
        (True, s1) \<Rightarrow> (Inl StoreUnavailable, s1)
      | (False, s1) \<Rightarrow>
          (Inr (sort_key createdAt (filter (\<lambda>m. conversationId m = cv) (messages s1))), s1))"

text \<open>What a route answers: the status and the JSON body.\<close>

datatype body =
    conversation_body conversation
  | messages_body "message list"
  | message_body message
  | error_body string

text \<open>
  \<^verbatim>\<open>POST /conversation\<close>. \<open>req_userId\<close> is the identity the authentication middleware
  attached to the request, \<open>otherUserId\<close> the field of the request body. The first
  function is the part of the \<^verbatim>\<open>try\<close> block after the check of the field.
\<close>

definition post_conversation_try ::
  "string \<Rightarrow> json option \<Rightarrow> store \<Rightarrow> (error + conversation) \<times> store" where
  "post_conversation_try req_userId otherUserId s =
     (case as_string otherUserId of
        None \<Rightarrow> (Inl ValidationError, s)
      | Some other \<Rightarrow>
          (case js_sort2 req_userId other of
             (u1, u2) \<Rightarrow>
               (case conversation_findUnique_users u1 u2 s of
                  (Inl e, s1) \<Rightarrow> (Inl e, s1)
                | (Inr (Some c), s1) \<Rightarrow> (Inr c, s1)
                | (Inr None, s1) \<Rightarrow> conversation_create u1 u2 s1)))"

definition post_conversation ::
  "string \<Rightarrow> json option \<Rightarrow> world \<Rightarrow> (nat \<times> body) \<times> world" where
  "post_conversation req_userId otherUserId w =
     (if \<not> truthy otherUserId then ((400, error_body ''Other user ID is required''), w)
      else
        (case post_conversation_try req_userId otherUserId (db w) of
           (Inl e, s) \<Rightarrow> ((500, error_body ''Failed to get conversation''), w\<lparr>db := s\<rparr>)
         | (Inr c, s) \<Rightarrow> ((200, conversation_body c), w\<lparr>db := s\<rparr>)))"

text \<open>\<^verbatim>\<open>GET /messages/:conversationId\<close>; the path parameter is a string.\<close>

definition get_messages :: "string \<Rightarrow> string \<Rightarrow> world \<Rightarrow> (nat \<times> body) \<times> world" where
  "get_messages req_userId conversationId' w =
     (case conversation_findUnique (Some (JStr conversationId')) (db w) of
        (Inl e, s1) \<Rightarrow> ((500, error_body ''Failed to fetch messages''), w\<lparr>db := s1\<rparr>)
      | (Inr None, s1) \<Rightarrow> ((404, error_body ''Conversation not found''), w\<lparr>db := s1\<rparr>)
      | (Inr (Some c), s1) \<Rightarrow>
          if user1Id c \<noteq> req_userId \<and> user2Id c \<noteq> req_userId
          then ((403, error_body ''Unauthorized''), w\<lparr>db := s1\<rparr>)
          else
            (case message_findMany conversationId' s1 of
               (Inl e, s2) \<Rightarrow> ((500, error_body ''Failed to fetch messages''), w\<lparr>db := s2\<rparr>)
             | (Inr ms, s2) \<Rightarrow> ((200, messages_body ms), w\<lparr>db := s2\<rparr>)))"

text \<open>\<^verbatim>\<open>POST /message\<close>; the three fields come from the request body.\<close>

definition post_message ::
  "string \<Rightarrow> json option \<Rightarrow> json option \<Rightarrow> json option \<Rightarrow> world \<Rightarrow> (nat \<times> body) \<times> world" where
  "post_message req_userId conversationId' content' receiverId' w =
     (if \<not> truthy conversationId' \<or> \<not> truthy content' \<or> \<not> truthy receiverId'
      then ((400, error_body ''Missing required fields''), w)
      else
        (case conversation_findUnique conversationId' (db w) of
           (Inl e, s1) \<Rightarrow> ((500, error_body ''Failed to send message''), w\<lparr>db := s1\<rparr>)
         | (Inr None, s1) \<Rightarrow> ((404, error_body ''Conversation not found''), w\<lparr>db := s1\<rparr>)
         | (Inr (Some c), s1) \<Rightarrow>
             if user1Id c \<noteq> req_userId \<and> user2Id c \<noteq> req_userId
             then ((403, error_body ''Unauthorized''), w\<lparr>db := s1\<rparr>)
             else
               (case save_message content' (Some req_userId) receiverId' conversationId' s1 of
                  (Inl e, s2) \<Rightarrow> ((500, error_body ''Failed to send message''), w\<lparr>db := s2\<rparr>)
                | (Inr m, s2) \<Rightarrow> ((201, message_body m), w\<lparr>db := s2\<rparr>))))"

section \<open>A small deployment\<close>

text \<open>
  Three users, one conversation between alice and bob, no message yet and nobody
  connected. The tokens are the ones the verifier accepts.
\<close>

fun demo_verify :: "string \<Rightarrow> string option" where
  "demo_verify t =
     (if t = ''tok-alice'' then Some ''alice''
      else if t = ''tok-alice-2'' then Some ''alice''
      else if t = ''tok-bob'' then Some ''bob''
      else if t = ''tok-mallory'' then Some ''mallory''
      else None)"

fun demo_uuid :: "nat \<Rightarrow> string" where
  "demo_uuid n = ''id-'' @ replicate n (CHR ''x'')"

definition demo_store :: store where
  "demo_store =
     \<lparr>users = [''alice'', ''bob'', ''mallory''],
      conversations = [\<lparr>id_c = ''c1'', user1Id = ''alice'', user2Id = ''bob'', updatedAt = 3\<rparr>],
      messages = [],
      now = 10,
      uuid = demo_uuid,
      issued = 0,
      faults = []\<rparr>"

definition demo_world :: world where
  "demo_world = \<lparr>clients = Map.empty, sockets = (\<lambda>ws. new_socket), db = demo_store\<rparr>"

text \<open>
  alice and bob both connected (sockets 1 and 2), a well-formed chat event for their
  conversation, and a world whose store has the given faults ahead.
\<close>

definition demo_online :: world where
  "demo_online = emit_connection demo_verify 2 (ParsedURL (Some ''tok-bob''))
                   (emit_connection demo_verify 1 (ParsedURL (Some ''tok-alice'')) demo_world)"

definition demo_chat :: json where
  "demo_chat = JObj [(''type'', JStr ''chat_message''), (''conversationId'', JStr ''c1''),
                     (''content'', JStr ''hi''), (''receiverId'', JStr ''bob'')]"

definition store_down :: "bool list \<Rightarrow> world \<Rightarrow> world" where
  "store_down fs w = w\<lparr>db := (db w)\<lparr>faults := fs\<rparr>\<rparr>"

text \<open>
  The record that alice's event creates in the deployment above, the same deployment
  with mallory connected as well (socket 3), and the record mallory's event creates.
\<close>

definition demo_saved :: message where
  "demo_saved = \<lparr>id_m = ''id-'', content = ''hi'', senderId = ''alice'', receiverId = ''bob'',
                  conversationId = ''c1'', createdAt = 10\<rparr>"

definition demo_intruder :: world where
  "demo_intruder = emit_connection demo_verify 3 (ParsedURL (Some ''tok-mallory'')) demo_online"

definition demo_intruded :: message where
  "demo_intruded = \<lparr>id_m = ''id-'', content = ''hi'', senderId = ''mallory'', receiverId = ''bob'',
                     conversationId = ''c1'', createdAt = 10\<rparr>"


definition demo_self :: conversation where
  "demo_self = \<lparr>id_c = ''id-'', user1Id = ''mallory'', user2Id = ''mallory'', updatedAt = 10\<rparr>"

section \<open>The canonical pair\<close>


section \<open>Facts about the store calls\<close>

lemma store_call_tables:
  "store_call s = (f, s1) \<Longrightarrow>
     users s1 = users s \<and> conversations s1 = conversations s \<and> messages s1 = messages s
     \<and> now s1 = now s \<and> uuid s1 = uuid s \<and> issued s1 = issued s"
  by (auto simp: store_call_def split: list.splits)

lemma store_call_no_fault:
  "faults s = [] \<Longrightarrow> store_call s = (False, s)"
  by (simp add: store_call_def)

lemma message_create_Inl:
  assumes "message_create c sd r cv s = (Inl e, s')"
  shows "users s' = users s \<and> conversations s' = conversations s \<and> messages s' = messages s"
proof (cases "store_call s")
  case (Pair f s1)
  with assms store_call_tables [OF Pair] show ?thesis
    by (auto simp: message_create_def Let_def split: option.splits if_splits bool.splits)
qed

lemma message_create_Inr:
  assumes "message_create c sd r cv s = (Inr m, s')"
  shows "users s' = users s \<and> conversations s' = conversations s \<and> messages s' = messages s @ [m]
     \<and> as_string c = Some (content m) \<and> sd = Some (senderId m)
     \<and> as_string r = Some (receiverId m) \<and> as_string cv = Some (conversationId m)
     \<and> conversationId m \<in> id_c ` set (conversations s) \<and> senderId m \<in> set (users s)
     \<and> id_m m \<notin> id_m ` set (messages s) \<and> createdAt m = now s \<and> now s' = Suc (now s)"
proof (cases "store_call s")
  case (Pair f s1)
  with assms store_call_tables [OF Pair] show ?thesis
    by (auto simp: message_create_def Let_def split: option.splits if_splits bool.splits)
qed

lemma conversation_update_Inl:
  assumes "conversation_update cv s = (Inl e, s')"
  shows "users s' = users s \<and> conversations s' = conversations s \<and> messages s' = messages s"
proof (cases "store_call s")
  case (Pair f s1)
  with assms store_call_tables [OF Pair] show ?thesis
    by (auto simp: conversation_update_def Let_def split: option.splits if_splits bool.splits)
qed

lemma conversation_update_Inr:
  assumes "conversation_update cv s = (Inr c, s')"
  shows "users s' = users s \<and> messages s' = messages s
     \<and> (\<exists>k. as_string cv = Some k
          \<and> conversations s' = map (\<lambda>x. if id_c x = k then x\<lparr>updatedAt := now s\<rparr> else x) (conversations s))"
proof (cases "store_call s")
  case (Pair f s1)
  with assms store_call_tables [OF Pair] show ?thesis
    by (auto simp: conversation_update_def Let_def split: option.splits if_splits bool.splits)
qed

lemma save_message_create_fails:
  assumes "message_create c sd r cv s = (Inl e, s1)"
  shows "save_message c sd r cv s = (Inl e, s1)"
  using assms by (simp add: save_message_def)

lemma save_message_Inr:
  assumes "save_message c sd r cv s = (Inr m, s')"
  shows "\<exists>s1 c'. message_create c sd r cv s = (Inr m, s1) \<and> conversation_update cv s1 = (Inr c', s')"
  using assms by (auto simp: save_message_def split: prod.splits sum.splits)

lemma save_message_Inl:
  assumes "save_message c sd r cv s = (Inl e, s')"
  shows "message_create c sd r cv s = (Inl e, s')
     \<or> (\<exists>m s1. message_create c sd r cv s = (Inr m, s1) \<and> conversation_update cv s1 = (Inl e, s'))"
  using assms by (auto simp: save_message_def split: prod.splits sum.splits)

lemma message_create_invalid:
  "as_string c = None \<or> sd = None \<or> as_string r = None \<or> as_string cv = None
     \<Longrightarrow> message_create c sd r cv s = (Inl ValidationError, s)"
  by (auto simp: message_create_def split: option.splits)

lemma save_message_saved:
  assumes "save_message c sd r cv s = (Inr m, s')"
  shows "messages s' = messages s @ [m] \<and> users s' = users s
       \<and> conversations s' =
           map (\<lambda>x. if id_c x = conversationId m then x\<lparr>updatedAt := Suc (createdAt m)\<rparr> else x)
             (conversations s)
       \<and> as_string c = Some (content m) \<and> sd = Some (senderId m)
       \<and> as_string r = Some (receiverId m) \<and> as_string cv = Some (conversationId m)
       \<and> conversationId m \<in> id_c ` set (conversations s)"
proof -
  from save_message_Inr [OF assms] obtain s1 c' where
    a: "message_create c sd r cv s = (Inr m, s1)" and b: "conversation_update cv s1 = (Inr c', s')"
    by blast
  from message_create_Inr [OF a] conversation_update_Inr [OF b] show ?thesis
    by auto
qed

lemma find_id_map:
  "find (\<lambda>c. id_c c = k) (map (\<lambda>x. if id_c x = k' then x\<lparr>updatedAt := t\<rparr> else x) cs)
     = map_option (\<lambda>x. if id_c x = k' then x\<lparr>updatedAt := t\<rparr> else x) (find (\<lambda>c. id_c c = k) cs)"
  by (induction cs) auto

lemma find_id_Some:
  "k \<in> id_c ` set cs \<Longrightarrow> \<exists>c. find (\<lambda>c. id_c c = k) cs = Some c"
  by (induction cs) auto

lemma find_id_c: "find (\<lambda>c. id_c c = k) cs = Some c \<Longrightarrow> id_c c = k \<and> c \<in> set cs"
  by (induction cs) (auto split: if_splits)

lemma conversation_findUnique_tables:
  assumes "conversation_findUnique cv s = (r, s1)"
  shows "users s1 = users s \<and> conversations s1 = conversations s \<and> messages s1 = messages s
       \<and> now s1 = now s"
proof (cases "store_call s")
  case (Pair f s')
  with assms store_call_tables [OF Pair] show ?thesis
    by (auto simp: conversation_findUnique_def split: option.splits bool.splits)
qed




lemma find_pair_Some:
  "find (\<lambda>c. user1Id c = u1 \<and> user2Id c = u2) cs = Some c
     \<Longrightarrow> user1Id c = u1 \<and> user2Id c = u2 \<and> c \<in> set cs"
  by (induction cs) (auto split: if_splits)

lemma find_pair_append:
  "find P cs = None \<Longrightarrow> P c \<Longrightarrow> find P (cs @ [c]) = Some c"
  by (induction cs) (auto split: if_splits)

section \<open>Facts about sending and relaying\<close>

lemma ws_send_clients [simp]: "clients (ws_send r f w) = clients w"
  by (simp add: ws_send_def)

lemma ws_send_db [simp]: "db (ws_send r f w) = db w"
  by (simp add: ws_send_def)

lemma ws_send_listeners [simp]: "listeners (sockets (ws_send r f w) x) = listeners (sockets w x)"
  by (simp add: ws_send_def)

lemma ws_send_userId [simp]: "userId (sockets (ws_send r f w) x) = userId (sockets w x)"
  by (simp add: ws_send_def)

lemma ws_send_readyState [simp]: "readyState (sockets (ws_send r f w) x) = readyState (sockets w x)"
  by (simp add: ws_send_def)

lemma ws_send_sent [simp]:
  "sent (sockets (ws_send r f w) x) = (if x = r then sent (sockets w x) @ [f] else sent (sockets w x))"
  by (simp add: ws_send_def)

lemma push_to_receiver_frame [simp]:
  "clients (push_to_receiver r m w) = clients w"
  "db (push_to_receiver r m w) = db w"
  "listeners (sockets (push_to_receiver r m w) x) = listeners (sockets w x)"
  "userId (sockets (push_to_receiver r m w) x) = userId (sockets w x)"
  "readyState (sockets (push_to_receiver r m w) x) = readyState (sockets w x)"
  by (simp_all add: push_to_receiver_def split: option.splits)

lemma relay_frame [simp]:
  "clients (relay ws r m w) = clients w"
  "db (relay ws r m w) = db w"
  "listeners (sockets (relay ws r m w) x) = listeners (sockets w x)"
  "userId (sockets (relay ws r m w) x) = userId (sockets w x)"
  "readyState (sockets (relay ws r m w) x) = readyState (sockets w x)"
  by (simp_all add: relay_def)

lemma on_message_try_frame:
  "clients (snd (on_message_try ws data w)) = clients w"
  "listeners (sockets (snd (on_message_try ws data w)) x) = listeners (sockets w x)"
  "userId (sockets (snd (on_message_try ws data w)) x) = userId (sockets w x)"
  "readyState (sockets (snd (on_message_try ws data w)) x) = readyState (sockets w x)"
  by (simp_all add: on_message_try_def split: option.splits sum.splits prod.splits)

lemma on_message_frame [simp]:
  "clients (on_message ws data w) = clients w"
  "listeners (sockets (on_message ws data w) x) = listeners (sockets w x)"
  "userId (sockets (on_message ws data w) x) = userId (sockets w x)"
  "readyState (sockets (on_message ws data w) x) = readyState (sockets w x)"
proof -
  obtain res w' where r: "on_message_try ws data w = (res, w')"
    by (cases "on_message_try ws data w")
  from on_message_try_frame [of ws data w] r
  have "clients w' = clients w" "\<And>x. listeners (sockets w' x) = listeners (sockets w x)"
       "\<And>x. userId (sockets w' x) = userId (sockets w x)"
       "\<And>x. readyState (sockets w' x) = readyState (sockets w x)"
    by simp_all
  then show "clients (on_message ws data w) = clients w"
    "listeners (sockets (on_message ws data w) x) = listeners (sockets w x)"
    "userId (sockets (on_message ws data w) x) = userId (sockets w x)"
    "readyState (sockets (on_message ws data w) x) = readyState (sockets w x)"
    using r by (simp_all add: on_message_def split: sum.splits)
qed

lemma on_message_try_chat:
  assumes "get_prop msg ''type'' = Inr (Some (JStr ''chat_message''))"
  shows "on_message_try ws (Some msg) w =
     (case save_message (field msg ''content'') (userId (sockets w ws))
             (field msg ''receiverId'') (field msg ''conversationId'') (db w) of
        (Inl e, s) \<Rightarrow> (Inl e, w\<lparr>db := s\<rparr>)
      | (Inr savedMessage, s) \<Rightarrow>
          (Inr (), relay ws (field msg ''receiverId'') savedMessage (w\<lparr>db := s\<rparr>)))"
  using assms by (simp add: on_message_try_def)

lemma on_message_create_fails:
  assumes "get_prop msg ''type'' = Inr (Some (JStr ''chat_message''))"
      and "message_create (field msg ''content'') (userId (sockets w ws))
             (field msg ''receiverId'') (field msg ''conversationId'') (db w) = (Inl e, s')"
  shows "on_message ws (Some msg) w = ws_send ws (error_frame ''Failed to process message'') (w\<lparr>db := s'\<rparr>)"
  using assms by (simp add: on_message_def on_message_try_chat save_message_create_fails)

lemma push_to_receiver_sent:
  "sent (sockets (push_to_receiver r m w) x) =
     sent (sockets w x) @
       (if (\<exists>k. as_string r = Some k \<and> clients w k = Some x) \<and> readyState (sockets w x) = OPEN
        then [new_message m] else [])"
  by (auto simp: push_to_receiver_def split: option.splits)

lemma relay_sent:
  "sent (sockets (relay ws r m w) x) =
     sent (sockets w x) @
       (if (\<exists>k. as_string r = Some k \<and> clients w k = Some x) \<and> readyState (sockets w x) = OPEN
        then [new_message m] else []) @
       (if x = ws then [message_sent m] else [])"
  by (simp add: relay_def push_to_receiver_sent)

lemma on_message_saved:
  assumes "get_prop msg ''type'' = Inr (Some (JStr ''chat_message''))"
      and "save_message (field msg ''content'') (userId (sockets w ws))
             (field msg ''receiverId'') (field msg ''conversationId'') (db w) = (Inr m, s')"
  shows "on_message ws (Some msg) w = relay ws (field msg ''receiverId'') m (w\<lparr>db := s'\<rparr>)"
  using assms by (simp add: on_message_def on_message_try_chat)

section \<open>Facts about the event loop\<close>

lemma emit_connection_simps:
  "emit_connection verify ws InvalidURL w = w\<lparr>sockets := (sockets w)(ws := new_socket)\<rparr>"
  "emit_connection verify ws (ParsedURL None) w =
     ws_close ws 1008 ''No token provided'' (w\<lparr>sockets := (sockets w)(ws := new_socket)\<rparr>)"
  "emit_connection verify ws (ParsedURL (Some t)) w =
     (if t = [] then ws_close ws 1008 ''No token provided'' (w\<lparr>sockets := (sockets w)(ws := new_socket)\<rparr>)
      else
        (case verify t of
           None \<Rightarrow> ws_close ws 1008 ''Invalid token'' (w\<lparr>sockets := (sockets w)(ws := new_socket)\<rparr>)
         | Some u \<Rightarrow>
             w\<lparr>clients := (clients w)(u \<mapsto> ws),
               sockets := (sockets w)(ws := new_socket\<lparr>userId := Some u, listeners := True\<rparr>)\<rparr>))"
  by (simp_all add: emit_connection_def on_connection_def Let_def split: option.splits)

lemma emit_connection_other:
  assumes "ws' \<noteq> ws"
  shows "sockets (emit_connection verify ws' url w) ws = sockets w ws"
proof (cases url)
  case InvalidURL
  with assms show ?thesis by (simp add: emit_connection_simps)
next
  case (ParsedURL token)
  with assms show ?thesis
    by (cases token) (simp_all add: emit_connection_simps ws_close_def split: option.splits)
qed

lemma emit_connection_ran:
  assumes "ws' \<noteq> ws" and "ws \<notin> ran (clients w)"
  shows "ws \<notin> ran (clients (emit_connection verify ws' url w))"
proof (cases url)
  case InvalidURL
  with assms show ?thesis by (simp add: emit_connection_simps)
next
  case (ParsedURL token)
  with assms show ?thesis
    by (cases token)
       (auto simp: emit_connection_simps ws_close_def ran_def split: option.splits if_splits)
qed

lemma emit_close_listeners:
  "listeners (sockets (emit_close ws' w) ws) = listeners (sockets w ws)"
  by (simp add: emit_close_def on_close_def Let_def split: option.splits)

lemma emit_close_ran:
  "ws \<notin> ran (clients w) \<Longrightarrow> ws \<notin> ran (clients (emit_close ws' w))"
  by (auto simp: emit_close_def on_close_def Let_def ran_def split: option.splits if_splits)

lemma step_keeps_out:
  assumes "\<not> connects ws e" and "\<not> listeners (sockets w ws)" and "ws \<notin> ran (clients w)"
  shows "\<not> listeners (sockets (step verify w e) ws) \<and> ws \<notin> ran (clients (step verify w e))"
proof (cases e)
  case (Connect ws' url)
  with assms show ?thesis by (simp add: emit_connection_other emit_connection_ran)
next
  case (Message ws' data)
  with assms show ?thesis by (simp add: emit_message_def)
next
  case (Close ws')
  with assms show ?thesis by (simp add: emit_close_listeners emit_close_ran)
qed

lemma run_keeps_out:
  assumes "\<forall>e \<in> set evs. \<not> connects ws e" and "\<not> listeners (sockets w ws)" and "ws \<notin> ran (clients w)"
  shows "\<not> listeners (sockets (run verify w evs) ws) \<and> ws \<notin> ran (clients (run verify w evs))"
  using assms
proof (induction evs arbitrary: w)
  case Nil
  then show ?case by (simp add: run_def)
next
  case (Cons e evs)
  from Cons.prems have "\<not> listeners (sockets (step verify w e) ws) \<and> ws \<notin> ran (clients (step verify w e))"
    by (intro step_keeps_out) simp_all
  with Cons.IH [of "step verify w e"] Cons.prems show ?case
    by (simp add: run_def)
qed

section \<open>Facts about the routes\<close>

lemma get_messages_participant:
  assumes "faults (db w) = []"
      and "find (\<lambda>c. id_c c = k) (conversations (db w)) = Some c"
      and "p = user1Id c \<or> p = user2Id c"
  shows "get_messages p k w =
           ((200, messages_body (sort_key createdAt (filter (\<lambda>m. conversationId m = k) (messages (db w))))), w)"
  using assms
  by (auto simp: get_messages_def conversation_findUnique_def message_findMany_def store_call_def)

lemma post_message_world:
  "\<exists>s. snd (post_message u cv ct r w) = w\<lparr>db := s\<rparr>"
proof (cases "\<not> truthy cv \<or> \<not> truthy ct \<or> \<not> truthy r")
  case True
  then have "snd (post_message u cv ct r w) = w\<lparr>db := db w\<rparr>"
    by (simp add: post_message_def)
  then show ?thesis ..
next
  case False
  then show ?thesis
    by (auto simp: post_message_def split: prod.splits sum.splits option.splits)
qed

lemma post_message_reads_store_only:
  assumes "db w2 = db w"
  shows "fst (post_message u cv ct r w2) = fst (post_message u cv ct r w)
       \<and> db (snd (post_message u cv ct r w2)) = db (snd (post_message u cv ct r w))"
  using assms
  by (simp add: post_message_def split: prod.splits sum.splits option.splits)

lemma post_message_201:
  assumes "fst (post_message u cv ct r w) = (201, message_body m)"
  shows "\<exists>c s1 s2. conversation_findUnique cv (db w) = (Inr (Some c), s1)
           \<and> save_message ct (Some u) r cv s1 = (Inr m, s2)
           \<and> db (snd (post_message u cv ct r w)) = s2"
  using assms
  by (auto simp: post_message_def split: prod.splits sum.splits option.splits if_splits)












lemma post_conversation_found:
  assumes "truthy (Some (JStr b))" and "faults (db w) = []" and "js_sort2 a b = (u1, u2)"
      and "find (\<lambda>c. user1Id c = u1 \<and> user2Id c = u2) (conversations (db w)) = Some c"
  shows "post_conversation a (Some (JStr b)) w = ((200, conversation_body c), w)"
  using assms
  by (simp add: post_conversation_def post_conversation_try_def conversation_findUnique_users_def
        store_call_def)

section \<open>Facts about the small deployment\<close>

lemma demo_online_simps:
  "clients demo_online = [''alice'' \<mapsto> 1, ''bob'' \<mapsto> 2]"
  "sockets demo_online = (\<lambda>ws. new_socket)
      (1 := new_socket\<lparr>userId := Some ''alice'', listeners := True\<rparr>,
       2 := new_socket\<lparr>userId := Some ''bob'', listeners := True\<rparr>)"
  "db demo_online = demo_store"
  by (simp_all add: demo_online_def emit_connection_simps demo_world_def)

lemma store_down_simps [simp]:
  "clients (store_down fs w) = clients w"
  "sockets (store_down fs w) = sockets w"
  "db (store_down fs w) = (db w)\<lparr>faults := fs\<rparr>"
  by (simp_all add: store_down_def)

lemma demo_chat_fields:
  "get_prop demo_chat ''type'' = Inr (Some (JStr ''chat_message''))"
  "field demo_chat ''content'' = Some (JStr ''hi'')"
  "field demo_chat ''receiverId'' = Some (JStr ''bob'')"
  "field demo_chat ''conversationId'' = Some (JStr ''c1'')"
  by (simp_all add: demo_chat_def field_def)

lemma demo_save_message:
  "save_message (Some (JStr ''hi'')) (Some ''alice'') (Some (JStr ''bob'')) (Some (JStr ''c1'')) demo_store
     = (Inr demo_saved,
        demo_store\<lparr>messages := [demo_saved],
                    conversations := [\<lparr>id_c = ''c1'', user1Id = ''alice'', user2Id = ''bob'', updatedAt = 11\<rparr>],
                    now := 12, issued := 1\<rparr>)"
  by (simp add: Let_def save_message_def message_create_def conversation_update_def store_call_def
        demo_store_def demo_saved_def)



text \<open>Both routes refuse mallory for the conversation of alice and bob.\<close>

lemma demo_routes_reject_intruder:
  "fst (post_message ''mallory'' (Some (JStr ''c1'')) (Some (JStr ''hi'')) (Some (JStr ''bob''))
          demo_intruder) = (403, error_body ''Unauthorized'')"
  "fst (get_messages ''mallory'' ''c1'' demo_intruder) = (403, error_body ''Unauthorized'')"
  by (simp_all add: demo_intruder_def emit_connection_simps demo_online_simps demo_store_def
        store_call_def post_message_def get_messages_def conversation_findUnique_def)

section \<open>The connection registry\<close>

text \<open>
  C1, as the code has it. The \<^verbatim>\<open>close\<close> listener deletes the entry of the socket's user
  without looking at which socket the entry holds: when the channel of a socket that
  authenticated as the non-empty identifier \<open>u\<close> closes, the entry of \<open>u\<close> is removed
  and no other entry changes. So after socket 1 and then socket 2 have registered for the
  same user, the close of socket 1 leaves the lookup of that user absent.
\<close>

theorem close_unregisters_any_entry:
  assumes "userId (sockets w c1) = Some u" and "u \<noteq> []" and "listeners (sockets w c1)"
  shows "clients (emit_close c1 w) = (clients w)(u := None)"
  using assms by (simp add: emit_close_def on_close_def)

theorem close_unregisters_any_entry_witness:
  "clients (emit_connection demo_verify 2 (ParsedURL (Some ''tok-alice-2''))
              (emit_connection demo_verify 1 (ParsedURL (Some ''tok-alice'')) demo_world)) ''alice'' = Some 2
   \<and> clients (emit_close 1 (emit_connection demo_verify 2 (ParsedURL (Some ''tok-alice-2''))
              (emit_connection demo_verify 1 (ParsedURL (Some ''tok-alice'')) demo_world))) ''alice'' = None"
  using close_unregisters_any_entry [of "emit_connection demo_verify 2 (ParsedURL (Some ''tok-alice-2''))
              (emit_connection demo_verify 1 (ParsedURL (Some ''tok-alice'')) demo_world)" 1 "''alice''"]
  by (simp add: emit_connection_simps demo_world_def new_socket_def)

text \<open>
  C1 as the spec words it fails: alice connects on socket 1, connects again on socket 2,
  and the close of the superseded socket 1 removes the entry that held socket 2.
\<close>

theorem stale_close_counterexample:
  "clients (emit_close 1 (emit_connection demo_verify 2 (ParsedURL (Some ''tok-alice-2''))
              (emit_connection demo_verify 1 (ParsedURL (Some ''tok-alice'')) demo_world))) ''alice'' \<noteq> Some 2"
  by (simp add: emit_close_def on_close_def emit_connection_simps demo_world_def new_socket_def)

section \<open>The handshake\<close>

text \<open>
  Every handshake that fails leaves the connection outside the relay. For a request
  whose URL does not parse the socket is given no close code at all; without a token
  (none, or an empty one) it is closed with code 1008 and the reason
  ``No token provided''; with a token that fails verification it is closed with code
  1008 and the different reason ``Invalid token''. In all these cases the registry is
  unchanged, and whatever events follow (the socket object is not accepted a second
  time), no listener is attached to the socket, the registry never holds it, and a
  payload arriving on it changes nothing.
\<close>

lemma handshake_failure_never_active:
  assumes "url = InvalidURL \<or> url = ParsedURL None \<or> url = ParsedURL (Some [])
           \<or> (\<exists>t. url = ParsedURL (Some t) \<and> verify t = None)"
      and "ws \<notin> ran (clients w)"
      and "\<forall>e \<in> set evs. \<not> connects ws e"
  shows "closeFrame (sockets (emit_connection verify ws url w) ws) =
           (if url = InvalidURL then None
            else Some (1008, if url = ParsedURL None \<or> url = ParsedURL (Some [])
                             then ''No token provided'' else ''Invalid token''))
       \<and> ''No token provided'' \<noteq> ''Invalid token''
       \<and> clients (emit_connection verify ws url w) = clients w
       \<and> \<not> listeners (sockets (run verify (emit_connection verify ws url w) evs) ws)
       \<and> ws \<notin> ran (clients (run verify (emit_connection verify ws url w) evs))
       \<and> emit_message ws data (run verify (emit_connection verify ws url w) evs)
           = run verify (emit_connection verify ws url w) evs"
proof -
  let ?w' = "emit_connection verify ws url w"
  from assms(1) have a: "closeFrame (sockets ?w' ws) =
           (if url = InvalidURL then None
            else Some (1008, if url = ParsedURL None \<or> url = ParsedURL (Some [])
                             then ''No token provided'' else ''Invalid token''))"
    by (auto simp: emit_connection_simps ws_close_def new_socket_def
          split: option.splits if_splits)
  from assms(1) have b: "clients ?w' = clients w"
    by (auto simp: emit_connection_simps ws_close_def split: option.splits if_splits)
  from assms(1) have c: "\<not> listeners (sockets ?w' ws)"
    by (auto simp: emit_connection_simps ws_close_def new_socket_def
          split: option.splits if_splits)
  from assms(2) b have d: "ws \<notin> ran (clients ?w')" by simp
  from run_keeps_out [OF assms(3) c d]
  have e: "\<not> listeners (sockets (run verify ?w' evs) ws) \<and> ws \<notin> ran (clients (run verify ?w' evs))" .
  then have f: "emit_message ws data (run verify ?w' evs) = run verify ?w' evs"
    by (simp add: emit_message_def)
  from a b e f show ?thesis by simp
qed

lemma handshake_failure_never_active_demo:
  "closeFrame (sockets (emit_connection demo_verify 5 (ParsedURL (Some ''forged'')) demo_world) 5)
      = Some (1008, ''Invalid token'')
   \<and> closeFrame (sockets (emit_connection demo_verify 5 (ParsedURL None) demo_world) 5)
      = Some (1008, ''No token provided'')
   \<and> emit_message 5 (Some JNull)
        (run demo_verify (emit_connection demo_verify 5 (ParsedURL (Some ''forged'')) demo_world)
           [Connect 1 (ParsedURL (Some ''tok-alice'')), Message 5 (Some (JObj [(''type'', JStr ''chat_message'')]))])
      = run demo_verify (emit_connection demo_verify 5 (ParsedURL (Some ''forged'')) demo_world)
           [Connect 1 (ParsedURL (Some ''tok-alice'')), Message 5 (Some (JObj [(''type'', JStr ''chat_message'')]))]"
  using handshake_failure_never_active [of "ParsedURL (Some ''forged'')" demo_verify 5 demo_world
          "[Connect 1 (ParsedURL (Some ''tok-alice'')), Message 5 (Some (JObj [(''type'', JStr ''chat_message'')]))]"
          "Some JNull"]
        handshake_failure_never_active [of "ParsedURL None" demo_verify 5 demo_world "[]" None]
  by (simp add: demo_world_def)

text \<open>
  C6 on the failing input. An upgrade request with the target \<^verbatim>\<open>//\<close> supplies no token
  and does not parse as a URL. The listener throws the TypeError before it reaches the
  check of the token: the socket is given no close code and no reason and stays
  \<open>OPEN\<close>, where the same request with a target that parses is closed with code 1008
  and ``No token provided''. The socket is not registered and has no listener.
\<close>

theorem unparsable_handshake_is_not_closed:
  "fst (on_connection demo_verify 5 InvalidURL demo_world) = Inl TypeError
   \<and> closeFrame (sockets (emit_connection demo_verify 5 InvalidURL demo_world) 5) = None
   \<and> readyState (sockets (emit_connection demo_verify 5 InvalidURL demo_world) 5) = OPEN
   \<and> listeners (sockets (emit_connection demo_verify 5 InvalidURL demo_world) 5) = False
   \<and> clients (emit_connection demo_verify 5 InvalidURL demo_world) = clients demo_world
   \<and> closeFrame (sockets (emit_connection demo_verify 5 (ParsedURL None) demo_world) 5)
       = Some (1008, ''No token provided'')"
  by (simp add: emit_connection_simps on_connection_def ws_close_def Let_def new_socket_def
        demo_world_def)

section \<open>Inbound events\<close>

text \<open>
  C3, as the code has it. On a socket whose listeners are attached, a payload that does
  not parse, and a \<^verbatim>\<open>chat_message\<close> without \<^verbatim>\<open>content\<close>, \<^verbatim>\<open>conversationId\<close> or
  \<^verbatim>\<open>receiverId\<close>, make the listener send the error frame to the sender and change
  nothing else; an event whose \<^verbatim>\<open>type\<close> is not \<^verbatim>\<open>chat_message\<close> is ignored in
  silence: no frame is sent and nothing changes.
\<close>

theorem malformed_event_handling:
  assumes "listeners (sockets w ws)"
  shows "((data = None
          \<or> (\<exists>msg. data = Some msg \<and> get_prop msg ''type'' = Inr (Some (JStr ''chat_message''))
                \<and> (field msg ''content'' = None \<or> field msg ''conversationId'' = None
                     \<or> field msg ''receiverId'' = None)))
         \<longrightarrow> emit_message ws data w = ws_send ws (error_frame ''Failed to process message'') w)
     \<and> ((\<exists>msg ty. data = Some msg \<and> get_prop msg ''type'' = Inr ty \<and> ty \<noteq> Some (JStr ''chat_message''))
         \<longrightarrow> emit_message ws data w = w)"
proof (intro conjI impI)
  assume "data = None
          \<or> (\<exists>msg. data = Some msg \<and> get_prop msg ''type'' = Inr (Some (JStr ''chat_message''))
                \<and> (field msg ''content'' = None \<or> field msg ''conversationId'' = None
                     \<or> field msg ''receiverId'' = None))"
  then show "emit_message ws data w = ws_send ws (error_frame ''Failed to process message'') w"
  proof
    assume "data = None"
    with assms show ?thesis
      by (simp add: emit_message_def on_message_def on_message_try_def)
  next
    assume "\<exists>msg. data = Some msg \<and> get_prop msg ''type'' = Inr (Some (JStr ''chat_message''))
                \<and> (field msg ''content'' = None \<or> field msg ''conversationId'' = None
                     \<or> field msg ''receiverId'' = None)"
    then obtain msg where d: "data = Some msg"
      and t: "get_prop msg ''type'' = Inr (Some (JStr ''chat_message''))"
      and m: "field msg ''content'' = None \<or> field msg ''conversationId'' = None
                     \<or> field msg ''receiverId'' = None"
      by blast
    from m have "as_string (field msg ''content'') = None
        \<or> userId (sockets w ws) = None
        \<or> as_string (field msg ''receiverId'') = None
        \<or> as_string (field msg ''conversationId'') = None"
      by auto
    then have "message_create (field msg ''content'') (userId (sockets w ws))
             (field msg ''receiverId'') (field msg ''conversationId'') (db w) = (Inl ValidationError, db w)"
      by (rule message_create_invalid)
    from on_message_create_fails [OF t this] d assms show ?thesis
      by (simp add: emit_message_def)
  qed
next
  assume "\<exists>msg ty. data = Some msg \<and> get_prop msg ''type'' = Inr ty \<and> ty \<noteq> Some (JStr ''chat_message'')"
  with assms show "emit_message ws data w = w"
    by (auto simp: emit_message_def on_message_def on_message_try_def)
qed

theorem malformed_event_handling_witness:
  "emit_message 1 None (emit_connection demo_verify 1 (ParsedURL (Some ''tok-alice'')) demo_world)
     = ws_send 1 (error_frame ''Failed to process message'')
         (emit_connection demo_verify 1 (ParsedURL (Some ''tok-alice'')) demo_world)
   \<and> emit_message 1 (Some (JObj [(''type'', JStr ''chat_message''), (''content'', JStr ''hi''),
                                    (''receiverId'', JStr ''bob'')]))
        (emit_connection demo_verify 1 (ParsedURL (Some ''tok-alice'')) demo_world)
     = ws_send 1 (error_frame ''Failed to process message'')
         (emit_connection demo_verify 1 (ParsedURL (Some ''tok-alice'')) demo_world)
   \<and> emit_message 1 (Some (JObj [(''type'', JStr ''ping'')]))
        (emit_connection demo_verify 1 (ParsedURL (Some ''tok-alice'')) demo_world)
     = emit_connection demo_verify 1 (ParsedURL (Some ''tok-alice'')) demo_world"
  using malformed_event_handling [of "emit_connection demo_verify 1 (ParsedURL (Some ''tok-alice'')) demo_world" 1 None]
    malformed_event_handling [of "emit_connection demo_verify 1 (ParsedURL (Some ''tok-alice'')) demo_world" 1
       "Some (JObj [(''type'', JStr ''chat_message''), (''content'', JStr ''hi''),
                                    (''receiverId'', JStr ''bob'')])"]
    malformed_event_handling [of "emit_connection demo_verify 1 (ParsedURL (Some ''tok-alice'')) demo_world" 1
       "Some (JObj [(''type'', JStr ''ping'')])"]
  by (simp add: emit_connection_simps demo_world_def new_socket_def field_def)

text \<open>
  C3 as the spec words it fails for an unknown event type: alice, connected on socket 1,
  sends an event of type \<^verbatim>\<open>ping\<close> and is sent no frame at all, so no error
  acknowledgment.
\<close>

theorem unknown_type_counterexample:
  "sent (sockets (emit_message 1 (Some (JObj [(''type'', JStr ''ping'')]))
                   (emit_connection demo_verify 1 (ParsedURL (Some ''tok-alice'')) demo_world)) 1) = []"
  by (simp add: emit_message_def on_message_def on_message_try_def emit_connection_simps
        demo_world_def new_socket_def)

text \<open>
  C4. When the creation of the message fails while a \<^verbatim>\<open>chat_message\<close> is processed, the
  tables of the store are as before (no message row, no conversation changed), the
  registry is unchanged, the sender is sent the error frame, and no other socket is sent
  anything.
\<close>

theorem persistence_failure_leaves_no_trace:
  assumes "listeners (sockets w ws)"
      and "get_prop msg ''type'' = Inr (Some (JStr ''chat_message''))"
      and "message_create (field msg ''content'') (userId (sockets w ws))
             (field msg ''receiverId'') (field msg ''conversationId'') (db w) = (Inl e, s')"
  shows "messages (db (emit_message ws (Some msg) w)) = messages (db w)
       \<and> conversations (db (emit_message ws (Some msg) w)) = conversations (db w)
       \<and> users (db (emit_message ws (Some msg) w)) = users (db w)
       \<and> clients (emit_message ws (Some msg) w) = clients w
       \<and> sent (sockets (emit_message ws (Some msg) w) x) =
           (if x = ws then sent (sockets w ws) @ [error_frame ''Failed to process message'']
            else sent (sockets w x))"
  using assms(1) on_message_create_fails [OF assms(2,3)] message_create_Inl [OF assms(3)]
  by (simp add: emit_message_def)

theorem persistence_failure_leaves_no_trace_witness:
  "messages (db (emit_message 1 (Some demo_chat) (store_down [True] demo_online))) = []
   \<and> sent (sockets (emit_message 1 (Some demo_chat) (store_down [True] demo_online)) 1)
       = [error_frame ''Failed to process message'']
   \<and> sent (sockets (emit_message 1 (Some demo_chat) (store_down [True] demo_online)) 2) = []"
proof -
  let ?w = "store_down [True] demo_online"
  have l: "listeners (sockets ?w 1)"
    by (simp add: demo_online_simps new_socket_def)
  have c: "message_create (field demo_chat ''content'') (userId (sockets ?w 1))
             (field demo_chat ''receiverId'') (field demo_chat ''conversationId'') (db ?w)
           = (Inl StoreUnavailable, demo_store\<lparr>faults := []\<rparr>)"
    by (simp add: demo_chat_fields demo_online_simps message_create_def store_call_def)
  from persistence_failure_leaves_no_trace [OF l demo_chat_fields(1) c, of 1]
       persistence_failure_leaves_no_trace [OF l demo_chat_fields(1) c, of 2]
  show ?thesis
    by (simp add: demo_online_simps demo_store_def new_socket_def)
qed

text \<open>
  C7, as the code has it. When a \<^verbatim>\<open>chat_message\<close> is processed and both store calls
  succeed (the message is created and the conversation's timestamp is updated): if the
  receiver is registered with a socket that is \<open>OPEN\<close>, that socket is sent exactly one
  new frame for the push, the \<^verbatim>\<open>new_message\<close> with the created record, and no third
  socket is sent anything; if the receiver is not registered, no socket is sent a
  \<^verbatim>\<open>new_message\<close>; in both cases the last frame sent to the sender is the
  \<^verbatim>\<open>message_sent\<close> with the created record, the record is the newest row of the
  messages table, and, while the store is available, each participant of the
  conversation reads it back through \<^verbatim>\<open>GET /messages/:conversationId\<close>.
\<close>

theorem successful_send_is_relayed:
  assumes "listeners (sockets w ws)"
      and "get_prop msg ''type'' = Inr (Some (JStr ''chat_message''))"
      and "save_message (field msg ''content'') (userId (sockets w ws))
             (field msg ''receiverId'') (field msg ''conversationId'') (db w) = (Inr m, s')"
  shows "(\<forall>rws. clients w (receiverId m) = Some rws \<and> readyState (sockets w rws) = OPEN \<longrightarrow>
            sent (sockets (emit_message ws (Some msg) w) rws)
              = sent (sockets w rws) @ [new_message m] @ (if rws = ws then [message_sent m] else [])
            \<and> (\<forall>x. x \<noteq> rws \<longrightarrow>
                  sent (sockets (emit_message ws (Some msg) w) x)
                    = sent (sockets w x) @ (if x = ws then [message_sent m] else [])))
       \<and> (clients w (receiverId m) = None \<longrightarrow>
            (\<forall>x. sent (sockets (emit_message ws (Some msg) w) x)
                    = sent (sockets w x) @ (if x = ws then [message_sent m] else [])))
       \<and> (\<exists>old. sent (sockets (emit_message ws (Some msg) w) ws) = old @ [message_sent m])
       \<and> messages (db (emit_message ws (Some msg) w)) = messages (db w) @ [m]
       \<and> (faults (db (emit_message ws (Some msg) w)) = [] \<longrightarrow>
            (\<exists>c. find (\<lambda>c. id_c c = conversationId m)
                     (conversations (db (emit_message ws (Some msg) w))) = Some c
               \<and> (\<forall>p. p = user1Id c \<or> p = user2Id c \<longrightarrow>
                     (\<exists>ms. fst (get_messages p (conversationId m) (emit_message ws (Some msg) w))
                              = (200, messages_body ms) \<and> m \<in> set ms))))"
proof -
  let ?W = "emit_message ws (Some msg) w"
  note sv = save_message_saved [OF assms(3)]
  have W: "?W = relay ws (field msg ''receiverId'') m (w\<lparr>db := s'\<rparr>)"
    using assms(1) on_message_saved [OF assms(2,3)] by (simp add: emit_message_def)
  have r: "as_string (field msg ''receiverId'') = Some (receiverId m)"
    using sv by simp
  have snt: "\<And>x. sent (sockets ?W x) =
     sent (sockets w x) @
       (if clients w (receiverId m) = Some x \<and> readyState (sockets w x) = OPEN
        then [new_message m] else []) @
       (if x = ws then [message_sent m] else [])"
    unfolding W by (simp add: relay_sent r)
  have dbW: "db ?W = s'"
    unfolding W by simp
  have p1: "\<forall>rws. clients w (receiverId m) = Some rws \<and> readyState (sockets w rws) = OPEN \<longrightarrow>
            sent (sockets ?W rws)
              = sent (sockets w rws) @ [new_message m] @ (if rws = ws then [message_sent m] else [])
            \<and> (\<forall>x. x \<noteq> rws \<longrightarrow>
                  sent (sockets ?W x) = sent (sockets w x) @ (if x = ws then [message_sent m] else []))"
    by (auto simp: snt)
  have p2: "clients w (receiverId m) = None \<longrightarrow>
            (\<forall>x. sent (sockets ?W x) = sent (sockets w x) @ (if x = ws then [message_sent m] else []))"
    by (simp add: snt)
  have p3: "\<exists>old. sent (sockets ?W ws) = old @ [message_sent m]"
    by (simp add: snt)
  have p4: "messages (db ?W) = messages (db w) @ [m]"
    using sv by (simp add: dbW)
  have p5: "faults (db ?W) = [] \<longrightarrow>
            (\<exists>c. find (\<lambda>c. id_c c = conversationId m) (conversations (db ?W)) = Some c
               \<and> (\<forall>p. p = user1Id c \<or> p = user2Id c \<longrightarrow>
                     (\<exists>ms. fst (get_messages p (conversationId m) ?W) = (200, messages_body ms)
                         \<and> m \<in> set ms)))"
  proof
    assume nf: "faults (db ?W) = []"
    from sv have "conversationId m \<in> id_c ` set (conversations (db w))" by simp
    from find_id_Some [OF this] obtain c0 where
      c0: "find (\<lambda>c. id_c c = conversationId m) (conversations (db w)) = Some c0" ..
    have "\<exists>c. find (\<lambda>c. id_c c = conversationId m) (conversations (db ?W)) = Some c"
      using sv c0 by (simp add: dbW find_id_map)
    then obtain c where c: "find (\<lambda>c. id_c c = conversationId m) (conversations (db ?W)) = Some c" ..
    have "\<forall>p. p = user1Id c \<or> p = user2Id c \<longrightarrow>
            (\<exists>ms. fst (get_messages p (conversationId m) ?W) = (200, messages_body ms) \<and> m \<in> set ms)"
    proof (intro allI impI)
      fix p assume "p = user1Id c \<or> p = user2Id c"
      from get_messages_participant [OF nf c this] p4
      show "\<exists>ms. fst (get_messages p (conversationId m) ?W) = (200, messages_body ms) \<and> m \<in> set ms"
        by simp
    qed
    with c show "\<exists>c. find (\<lambda>c. id_c c = conversationId m) (conversations (db ?W)) = Some c
               \<and> (\<forall>p. p = user1Id c \<or> p = user2Id c \<longrightarrow>
                     (\<exists>ms. fst (get_messages p (conversationId m) ?W) = (200, messages_body ms)
                         \<and> m \<in> set ms))"
      by blast
  qed
  from p1 p2 p3 p4 p5 show ?thesis by blast
qed

theorem successful_send_is_relayed_witness:
  "sent (sockets (emit_message 1 (Some demo_chat) demo_online) 2) = [new_message demo_saved]
   \<and> sent (sockets (emit_message 1 (Some demo_chat) demo_online) 1) = [message_sent demo_saved]
   \<and> messages (db (emit_message 1 (Some demo_chat) demo_online)) = [demo_saved]
   \<and> (\<exists>ms. fst (get_messages ''bob'' ''c1'' (emit_message 1 (Some demo_chat) demo_online))
              = (200, messages_body ms) \<and> demo_saved \<in> set ms)"
proof -
  let ?W = "emit_message 1 (Some demo_chat) demo_online"
  let ?s = "demo_store\<lparr>messages := [demo_saved],
                    conversations := [\<lparr>id_c = ''c1'', user1Id = ''alice'', user2Id = ''bob'', updatedAt = 11\<rparr>],
                    now := 12, issued := 1\<rparr>"
  have l: "listeners (sockets demo_online 1)"
    by (simp add: demo_online_simps new_socket_def)
  have sv: "save_message (field demo_chat ''content'') (userId (sockets demo_online 1))
             (field demo_chat ''receiverId'') (field demo_chat ''conversationId'') (db demo_online)
           = (Inr demo_saved, ?s)"
    by (simp add: demo_chat_fields demo_online_simps demo_save_message)
  note th = successful_send_is_relayed [OF l demo_chat_fields(1) sv]
  have W: "db ?W = ?s"
    using l on_message_saved [OF demo_chat_fields(1) sv] by (simp add: emit_message_def)
  have reg: "clients demo_online (receiverId demo_saved) = Some 2 \<and> readyState (sockets demo_online 2) = OPEN"
    by (simp add: demo_online_simps demo_saved_def new_socket_def)
  from th reg have a: "sent (sockets ?W 2) = sent (sockets demo_online 2) @ [new_message demo_saved] @ []
       \<and> (\<forall>x. x \<noteq> 2 \<longrightarrow> sent (sockets ?W x)
               = sent (sockets demo_online x) @ (if x = 1 then [message_sent demo_saved] else []))"
    by auto
  then have a1: "sent (sockets ?W 2) = [new_message demo_saved]"
    by (simp add: demo_online_simps new_socket_def)
  from a have "sent (sockets ?W 1) = sent (sockets demo_online 1) @ [message_sent demo_saved]"
    by auto
  then have a2: "sent (sockets ?W 1) = [message_sent demo_saved]"
    by (simp add: demo_online_simps new_socket_def)
  from th have a3: "messages (db ?W) = [demo_saved]"
    by (simp add: demo_online_simps demo_store_def)
  have nf: "faults (db ?W) = []"
    using W by (simp add: demo_store_def)
  have fc: "find (\<lambda>c. id_c c = conversationId demo_saved) (conversations (db ?W))
          = Some \<lparr>id_c = ''c1'', user1Id = ''alice'', user2Id = ''bob'', updatedAt = 11\<rparr>"
    using W by (simp add: demo_saved_def)
  from th nf fc have "\<forall>p. p = ''alice'' \<or> p = ''bob'' \<longrightarrow>
        (\<exists>ms. fst (get_messages p (conversationId demo_saved) ?W) = (200, messages_body ms) \<and> demo_saved \<in> set ms)"
    by auto
  then have a4: "\<exists>ms. fst (get_messages ''bob'' ''c1'' ?W) = (200, messages_body ms) \<and> demo_saved \<in> set ms"
    by (simp add: demo_saved_def)
  from a1 a2 a3 a4 show ?thesis by simp
qed

text \<open>
  C7 as the spec words it fails when the message is created and the update of the
  timestamp then throws: the message row is stored, bob is registered with an open
  socket and is sent nothing, and alice is sent the error frame, not \<^verbatim>\<open>message_sent\<close>.
\<close>

theorem timestamp_failure_counterexample:
  "messages (db (emit_message 1 (Some demo_chat) (store_down [False, True] demo_online))) = [demo_saved]
   \<and> clients (store_down [False, True] demo_online) ''bob'' = Some 2
   \<and> readyState (sockets (store_down [False, True] demo_online) 2) = OPEN
   \<and> sent (sockets (emit_message 1 (Some demo_chat) (store_down [False, True] demo_online)) 2) = []
   \<and> sent (sockets (emit_message 1 (Some demo_chat) (store_down [False, True] demo_online)) 1)
       = [error_frame ''Failed to process message'']"
  by (simp add: Let_def emit_message_def on_message_def on_message_try_chat demo_chat_fields
        demo_online_simps save_message_def message_create_def conversation_update_def
        store_call_def demo_store_def demo_saved_def new_socket_def)

text \<open>
  C2 on the failing input. mallory is no participant of the conversation \<^verbatim>\<open>c1\<close> of alice
  and bob; mallory's \<^verbatim>\<open>chat_message\<close> for it over socket 3 is stored with mallory as
  sender, the conversation's timestamp moves, bob is pushed the message and mallory is
  sent \<^verbatim>\<open>message_sent\<close>.
\<close>

theorem non_participant_send_is_relayed:
  "conversations (db demo_intruder)
     = [\<lparr>id_c = ''c1'', user1Id = ''alice'', user2Id = ''bob'', updatedAt = 3\<rparr>]
   \<and> userId (sockets demo_intruder 3) = Some ''mallory''
   \<and> messages (db (emit_message 3 (Some demo_chat) demo_intruder)) = [demo_intruded]
   \<and> conversations (db (emit_message 3 (Some demo_chat) demo_intruder))
       = [\<lparr>id_c = ''c1'', user1Id = ''alice'', user2Id = ''bob'', updatedAt = 11\<rparr>]
   \<and> sent (sockets (emit_message 3 (Some demo_chat) demo_intruder) 2) = [new_message demo_intruded]
   \<and> sent (sockets (emit_message 3 (Some demo_chat) demo_intruder) 3) = [message_sent demo_intruded]"
  by (simp add: Let_def demo_intruder_def emit_connection_simps emit_message_def on_message_def
        on_message_try_chat demo_chat_fields relay_def push_to_receiver_def ws_send_def
        demo_online_simps save_message_def message_create_def conversation_update_def
        store_call_def demo_store_def demo_intruded_def new_socket_def)

section \<open>The routes\<close>

text \<open>
  C9. \<^verbatim>\<open>POST /message\<close> leaves the registry and every socket as they were, whatever it
  answers, so no frame is pushed to anybody; its answer and the store it leaves depend
  on the store alone, not on the registry or the sockets; and when it answers 201 with
  a message, that message is the newest row of the messages table, its sender is the
  requester, and the conversation's timestamp has been set.
\<close>

theorem post_message_never_pushes:
  "clients (snd (post_message u cv ct r w)) = clients w
   \<and> sockets (snd (post_message u cv ct r w)) = sockets w
   \<and> (\<forall>w2. db w2 = db w \<longrightarrow>
          fst (post_message u cv ct r w2) = fst (post_message u cv ct r w)
          \<and> db (snd (post_message u cv ct r w2)) = db (snd (post_message u cv ct r w)))
   \<and> (\<forall>m. fst (post_message u cv ct r w) = (201, message_body m) \<longrightarrow>
          messages (db (snd (post_message u cv ct r w))) = messages (db w) @ [m]
          \<and> senderId m = u
          \<and> conversations (db (snd (post_message u cv ct r w)))
              = map (\<lambda>x. if id_c x = conversationId m then x\<lparr>updatedAt := Suc (createdAt m)\<rparr> else x)
                  (conversations (db w)))"
proof (intro conjI allI impI)
  from post_message_world [of u cv ct r w] obtain s where
    s: "snd (post_message u cv ct r w) = w\<lparr>db := s\<rparr>" ..
  then show "clients (snd (post_message u cv ct r w)) = clients w"
    and "sockets (snd (post_message u cv ct r w)) = sockets w"
    by simp_all
next
  fix w2 :: world assume "db w2 = db w"
  from post_message_reads_store_only [OF this]
  show "fst (post_message u cv ct r w2) = fst (post_message u cv ct r w)"
    and "db (snd (post_message u cv ct r w2)) = db (snd (post_message u cv ct r w))"
    by simp_all
next
  fix m assume "fst (post_message u cv ct r w) = (201, message_body m)"
  from post_message_201 [OF this] obtain c s1 s2 where
    fu: "conversation_findUnique cv (db w) = (Inr (Some c), s1)"
    and sv: "save_message ct (Some u) r cv s1 = (Inr m, s2)"
    and d: "db (snd (post_message u cv ct r w)) = s2"
    by blast
  from save_message_saved [OF sv] conversation_findUnique_tables [OF fu] d
  show "messages (db (snd (post_message u cv ct r w))) = messages (db w) @ [m]"
    and "senderId m = u"
    and "conversations (db (snd (post_message u cv ct r w)))
              = map (\<lambda>x. if id_c x = conversationId m then x\<lparr>updatedAt := Suc (createdAt m)\<rparr> else x)
                  (conversations (db w))"
    by simp_all
qed

theorem post_message_never_pushes_witness:
  "fst (post_message ''alice'' (Some (JStr ''c1'')) (Some (JStr ''hi'')) (Some (JStr ''bob'')) demo_online)
     = (201, message_body demo_saved)
   \<and> clients demo_online ''bob'' = Some 2
   \<and> readyState (sockets demo_online 2) = OPEN
   \<and> sent (sockets (snd (post_message ''alice'' (Some (JStr ''c1'')) (Some (JStr ''hi''))
                           (Some (JStr ''bob'')) demo_online)) 2) = []
   \<and> messages (db (snd (post_message ''alice'' (Some (JStr ''c1'')) (Some (JStr ''hi''))
                           (Some (JStr ''bob'')) demo_online))) = [demo_saved]
   \<and> conversations (db (snd (post_message ''alice'' (Some (JStr ''c1'')) (Some (JStr ''hi''))
                           (Some (JStr ''bob'')) demo_online)))
       = [\<lparr>id_c = ''c1'', user1Id = ''alice'', user2Id = ''bob'', updatedAt = 11\<rparr>]"
proof -
  let ?R = "post_message ''alice'' (Some (JStr ''c1'')) (Some (JStr ''hi'')) (Some (JStr ''bob'')) demo_online"
  note th = post_message_never_pushes [of "''alice''" "Some (JStr ''c1'')" "Some (JStr ''hi'')"
                "Some (JStr ''bob'')" demo_online]
  have fu: "conversation_findUnique (Some (JStr ''c1'')) demo_store
      = (Inr (Some \<lparr>id_c = ''c1'', user1Id = ''alice'', user2Id = ''bob'', updatedAt = 3\<rparr>), demo_store)"
    by (simp add: conversation_findUnique_def store_call_def demo_store_def)
  have r: "fst ?R = (201, message_body demo_saved)"
    by (simp add: post_message_def demo_online_simps fu demo_save_message)
  from th have "sockets (snd ?R) = sockets demo_online" by blast
  then have s: "sent (sockets (snd ?R) 2) = []"
    by (simp add: demo_online_simps new_socket_def)
  from th r have "messages (db (snd ?R)) = messages (db demo_online) @ [demo_saved]
      \<and> conversations (db (snd ?R))
          = map (\<lambda>x. if id_c x = conversationId demo_saved
                      then x\<lparr>updatedAt := Suc (createdAt demo_saved)\<rparr> else x)
              (conversations (db demo_online))"
    by blast
  then have m: "messages (db (snd ?R)) = [demo_saved]"
    and c: "conversations (db (snd ?R))
              = [\<lparr>id_c = ''c1'', user1Id = ''alice'', user2Id = ''bob'', updatedAt = 11\<rparr>]"
    by (simp_all add: demo_online_simps demo_store_def demo_saved_def)
  have o: "clients demo_online ''bob'' = Some 2 \<and> readyState (sockets demo_online 2) = OPEN"
    by (simp add: demo_online_simps new_socket_def)
  from r s m c o show ?thesis by blast
qed



text \<open>
  C10. A requester with a non-empty identifier \<open>u\<close> who exists as a user may name
  themself as \<^verbatim>\<open>otherUserId\<close>: with the store available and able to issue a fresh
  identifier, \<^verbatim>\<open>POST /conversation\<close> answers 200 with a stored conversation whose two
  participants are both \<open>u\<close>, and the same call repeated answers with that same
  conversation and changes nothing.
\<close>

theorem self_conversation_is_created:
  assumes "u \<noteq> []" and "u \<in> set (users (db w))" and "faults (db w) = []"
      and "uuid (db w) (issued (db w)) \<notin> id_c ` set (conversations (db w))"
  shows "\<exists>c w1. post_conversation u (Some (JStr u)) w = ((200, conversation_body c), w1)
           \<and> user1Id c = u \<and> user2Id c = u \<and> c \<in> set (conversations (db w1))
           \<and> post_conversation u (Some (JStr u)) w1 = ((200, conversation_body c), w1)"
proof (cases "find (\<lambda>c. user1Id c = u \<and> user2Id c = u) (conversations (db w))")
  case (Some c)
  from assms(1) have t: "truthy (Some (JStr u))" by simp
  have srt: "js_sort2 u u = (u, u)" by (simp add: js_sort2_def)
  from post_conversation_found [OF t assms(3) srt Some] find_pair_Some [OF Some]
  show ?thesis by auto
next
  case None
  let ?c = "\<lparr>id_c = uuid (db w) (issued (db w)), user1Id = u, user2Id = u, updatedAt = now (db w)\<rparr>"
  let ?s = "(db w)\<lparr>conversations := conversations (db w) @ [?c], now := Suc (now (db w)),
                    issued := Suc (issued (db w))\<rparr>"
  from None have np: "(u, u) \<notin> (\<lambda>c. (user1Id c, user2Id c)) ` set (conversations (db w))"
    by (auto simp: find_None_iff)
  from assms None np have first: "post_conversation u (Some (JStr u)) w = ((200, conversation_body ?c), w\<lparr>db := ?s\<rparr>)"
    by (simp add: post_conversation_def post_conversation_try_def js_sort2_def
          conversation_findUnique_users_def conversation_create_def store_call_def Let_def)
  from assms(1) have t: "truthy (Some (JStr u))" by simp
  have srt: "js_sort2 u u = (u, u)" by (simp add: js_sort2_def)
  have nf: "faults (db (w\<lparr>db := ?s\<rparr>)) = []" using assms(3) by simp
  have f: "find (\<lambda>c. user1Id c = u \<and> user2Id c = u) (conversations (db (w\<lparr>db := ?s\<rparr>))) = Some ?c"
    using find_pair_append [OF None, of ?c] by simp
  from post_conversation_found [OF t nf srt f] first show ?thesis
    by simp
qed

theorem self_conversation_is_created_witness:
  "post_conversation ''mallory'' (Some (JStr ''mallory'')) demo_world
     = ((200, conversation_body demo_self),
        demo_world\<lparr>db := demo_store\<lparr>conversations := conversations demo_store @ [demo_self],
                                      now := 11, issued := 1\<rparr>\<rparr>)
   \<and> (\<exists>c w1. post_conversation ''mallory'' (Some (JStr ''mallory'')) demo_world
                = ((200, conversation_body c), w1)
           \<and> user1Id c = ''mallory'' \<and> user2Id c = ''mallory'' \<and> c \<in> set (conversations (db w1))
           \<and> post_conversation ''mallory'' (Some (JStr ''mallory'')) w1 = ((200, conversation_body c), w1))"
proof -
  have "post_conversation ''mallory'' (Some (JStr ''mallory'')) demo_world
     = ((200, conversation_body demo_self),
        demo_world\<lparr>db := demo_store\<lparr>conversations := conversations demo_store @ [demo_self],
                                      now := 11, issued := 1\<rparr>\<rparr>)"
    by (simp add: post_conversation_def post_conversation_try_def js_sort2_def
        conversation_findUnique_users_def conversation_create_def store_call_def Let_def
        demo_world_def demo_store_def demo_self_def)
  moreover have "''mallory'' \<noteq> []" "''mallory'' \<in> set (users (db demo_world))"
    "faults (db demo_world) = []"
    "uuid (db demo_world) (issued (db demo_world)) \<notin> id_c ` set (conversations (db demo_world))"
    by (simp_all add: demo_world_def demo_store_def)
  from self_conversation_is_created [OF this]
  have "\<exists>c w1. post_conversation ''mallory'' (Some (JStr ''mallory'')) demo_world
                = ((200, conversation_body c), w1)
           \<and> user1Id c = ''mallory'' \<and> user2Id c = ''mallory'' \<and> c \<in> set (conversations (db w1))
           \<and> post_conversation ''mallory'' (Some (JStr ''mallory'')) w1 = ((200, conversation_body c), w1)" .
  ultimately show ?thesis by blast
qed

end
